theory Spec2Isabelle
  imports Main "HOL-Library.Word"
begin

section \<open>PureCut background remover: the controller of \<open>src/App.tsx\<close>\<close>

text \<open>
  The component \<open>App\<close> keeps four pieces of React state and three handlers that change
  them: \<open>processFile\<close>, \<open>removeBackground\<close> and \<open>reset\<close>. The handlers are embedded as
  functions from state to state. JavaScript values that may be \<open>null\<close> or \<open>undefined\<close>
  are options; a thrown exception is a value.
\<close>

subsection \<open>JavaScript strings\<close>

text \<open>\<open>!s\<close> holds for \<open>null\<close> and for the empty string; every other string is truthy.\<close>

fun truthy :: "string option \<Rightarrow> bool" where
  "truthy None = False"
| "truthy (Some s) = (s \<noteq> [])"

text \<open>\<open>s.startsWith(p)\<close>.\<close>

definition startsWith :: "string \<Rightarrow> string \<Rightarrow> bool" where
  "startsWith s p = (take (length p) s = p)"

text \<open>
  \<open>s.split(c)\<close> for a one-character separator: the pieces between the occurrences of
  \<open>c\<close>, at least one piece, empty pieces kept.
\<close>

fun split :: "string \<Rightarrow> char \<Rightarrow> string list" where
  "split [] c = [[]]"
| "split (x # xs) c =
     (if x = c then [] # split xs c
      else (case split xs c of [] \<Rightarrow> [[x]] | y # ys \<Rightarrow> (x # y) # ys))"

text \<open>\<open>a[i]\<close> on an array: \<open>undefined\<close> out of range.\<close>

fun index :: "'a list \<Rightarrow> nat \<Rightarrow> 'a option" where
  "index [] i = None"
| "index (x # xs) 0 = Some x"
| "index (x # xs) (Suc i) = index xs i"

text \<open>A value interpolated into a template literal: \<open>undefined\<close> prints as its name.\<close>

fun interpolate :: "string option \<Rightarrow> string" where
  "interpolate None = ''undefined''"
| "interpolate (Some s) = s"

subsection \<open>Files and \<open>FileReader.readAsDataURL\<close>\<close>

type_synonym byte = "8 word"

record File =
  type :: string
  bytes :: "byte list"

text \<open>The base64 alphabet of RFC 4648 and the encoding of a byte sequence, padded.\<close>

definition alphabet :: string where
  "alphabet = ''ABCDEFGHIJKLMNOPQRSTUVWXYZabcdefghijklmnopqrstuvwxyz0123456789+/''"

definition sextet :: "nat \<Rightarrow> char" where
  "sextet n = alphabet ! (n mod 64)"

fun base64 :: "byte list \<Rightarrow> string" where
  "base64 [] = []"
| "base64 [a] =
     [sextet (unat a div 4), sextet (unat a mod 4 * 16), CHR ''='', CHR ''='']"
| "base64 [a, b] =
     [sextet (unat a div 4), sextet (unat a mod 4 * 16 + unat b div 16),
      sextet (unat b mod 16 * 4), CHR ''='']"
| "base64 (a # b # c # rest) =
     [sextet (unat a div 4), sextet (unat a mod 4 * 16 + unat b div 16),
      sextet (unat b mod 16 * 4 + unat c div 64), sextet (unat c mod 64)] @ base64 rest"

text \<open>
  The result of \<open>reader.readAsDataURL(file)\<close>, handed to \<open>onload\<close>: the data URL of the
  file's bytes under the file's own type. (A file of empty type never reaches the reader:
  \<open>processFile\<close> rejects it.)
\<close>

definition readAsDataURL :: "File \<Rightarrow> string" where
  "readAsDataURL f = ''data:'' @ type f @ '';base64,'' @ base64 (bytes f)"

subsection \<open>The model client's request and reply\<close>

text \<open>
  The shapes of the client library that the component builds and reads. Every field that
  may be missing is an option. The field \<open>text\<close> of a part is written \<open>text'\<close>.
\<close>

record blob =
  data :: "string option"
  mimeType :: "string option"

record part =
  inlineData :: "blob option"
  text' :: "string option"

record content =
  parts :: "part list option"

record request =
  model :: string
  contents :: content

record candidate =
  content :: "content option"

record response =
  candidates :: "candidate list option"

text \<open>What \<open>err\<close> of the \<open>catch\<close> clause carries: \<open>err.message\<close>, possibly undefined.\<close>

record exn =
  message :: "string option"

text \<open>
  \<open>await genAI.models.generateContent(...)\<close> either resumes with a response or throws.
\<close>

datatype outcome = Replied response | Threw exn

subsection \<open>The component's state\<close>

record app_state =
  sourceImage :: "string option"
  resultImage :: "string option"
  isProcessing :: bool
  error :: "string option"

text \<open>The initial values of the four \<open>useState\<close> calls.\<close>

definition initial :: app_state where
  "initial = \<lparr>sourceImage = None, resultImage = None, isProcessing = False, error = None\<rparr>"

subsection \<open>\<open>processFile\<close> (lines 28 to 41)\<close>

definition invalidFileMessage :: string where
  "invalidFileMessage = ''Please upload a valid image file.''"

text \<open>
  The synchronous part: a file whose type does not start with \<open>image/\<close> sets the error
  and returns; any other file is handed to a \<open>FileReader\<close> (the second component) and the
  state is left as it is.
\<close>

definition processFile :: "File \<Rightarrow> app_state \<Rightarrow> app_state \<times> File option" where
  "processFile f s =
     (if \<not> startsWith (type f) ''image/''
      then (s\<lparr>error := Some invalidFileMessage\<rparr>, None)
      else (s, Some f))"

text \<open>The \<open>reader.onload\<close> callback, with \<open>e.target.result\<close> as its argument.\<close>

definition onload :: "string \<Rightarrow> app_state \<Rightarrow> app_state" where
  "onload result s = s\<lparr>sourceImage := Some result, resultImage := None, error := None\<rparr>"

text \<open>Ingestion of a file whose read completes: \<open>processFile\<close>, then \<open>onload\<close>.\<close>

definition ingestFile :: "File \<Rightarrow> app_state \<Rightarrow> app_state" where
  "ingestFile f s =
     (case processFile f s of
        (s', None) \<Rightarrow> s'
      | (s', Some g) \<Rightarrow> onload (readAsDataURL g) s')"

subsection \<open>\<open>removeBackground\<close> (lines 43 to 89)\<close>

definition modelName :: string where
  "modelName = ''gemini-2.5-flash-image''"

definition instruction :: string where
  "instruction = ''Remove the background from this image and return only the subject with a transparent background. Output the result as an image.''"

text \<open>
  Lines 50 to 67: the argument of \<open>generateContent\<close>, built from the stored data URL.
  \<open>split\<close> returns at least one piece, so \<open>[0]\<close> is never undefined and the first
  branch of the inner case is never taken (lemma \<open>index_split_0\<close>).
\<close>

definition buildRequest :: "string \<Rightarrow> request" where
  "buildRequest src =
     (let base64Data = index (split src CHR '','') 1;
          mimeType' = (case index (split src CHR '';'') 0 of
                         None \<Rightarrow> None
                       | Some h \<Rightarrow> index (split h CHR '':'') 1)
      in \<lparr>model = modelName,
          contents = \<lparr>parts = Some
            [\<lparr>inlineData = Some \<lparr>data = base64Data, mimeType = mimeType'\<rparr>, text' = None\<rparr>,
             \<lparr>inlineData = None, text' = Some instruction\<rparr>]\<rparr>\<rparr>)"

text \<open>
  The function up to its \<open>await\<close>: the guard on \<open>sourceImage\<close>, the two setters, and the
  request that is sent (none when the guard returns).
\<close>

definition removeBackground_begin :: "app_state \<Rightarrow> app_state \<times> request option" where
  "removeBackground_begin s =
     (case sourceImage s of
        None \<Rightarrow> (s, None)
      | Some src \<Rightarrow>
          if src = [] then (s, None)
          else (s\<lparr>isProcessing := True, error := None\<rparr>, Some (buildRequest src)))"

text \<open>\<open>response.candidates?.[0]?.content?.parts || []\<close>.\<close>

definition responseParts :: "response \<Rightarrow> part list" where
  "responseParts r =
     (case candidates r of
        None \<Rightarrow> []
      | Some cs \<Rightarrow>
          (case index cs 0 of
             None \<Rightarrow> []
           | Some c \<Rightarrow>
               (case content c of
                  None \<Rightarrow> []
                | Some ct \<Rightarrow> (case parts ct of None \<Rightarrow> [] | Some ps \<Rightarrow> ps))))"

text \<open>
  The loop of lines 71 to 78: the value passed to \<open>setResultImage\<close> at the first part
  that has \<open>inlineData\<close>, where the loop breaks; \<open>None\<close> when it runs to the end with
  \<open>foundImage\<close> still false.
\<close>

fun scanParts :: "part list \<Rightarrow> string option" where
  "scanParts [] = None"
| "scanParts (p # ps) =
     (case inlineData p of
        Some b \<Rightarrow> Some (''data:image/png;base64,'' @ interpolate (data b))
      | None \<Rightarrow> scanParts ps)"

definition noImageMessage :: string where
  "noImageMessage = ''Failed to generate a cutout. The model did not return an image.''"

definition defaultMessage :: string where
  "defaultMessage = ''An error occurred while processing the image.''"

text \<open>The \<open>try\<close> block after the \<open>await\<close>: the new state, or the exception thrown.\<close>

fun tryBlock :: "outcome \<Rightarrow> app_state \<Rightarrow> exn + app_state" where
  "tryBlock (Threw e) s = Inl e"
| "tryBlock (Replied r) s =
     (case scanParts (responseParts r) of
        Some url \<Rightarrow> Inr (s\<lparr>resultImage := Some url\<rparr>)
      | None \<Rightarrow> Inl \<lparr>message = Some noImageMessage\<rparr>)"

text \<open>The \<open>catch\<close> clause: \<open>setError(err.message || '...')\<close>.\<close>

definition catchClause :: "exn \<Rightarrow> app_state \<Rightarrow> app_state" where
  "catchClause err s =
     s\<lparr>error := Some (case message err of
                        None \<Rightarrow> defaultMessage
                      | Some m \<Rightarrow> if m = [] then defaultMessage else m)\<rparr>"

text \<open>The function from its \<open>await\<close> on: \<open>try\<close>, \<open>catch\<close>, and \<open>finally\<close>.\<close>

definition removeBackground_resume :: "outcome \<Rightarrow> app_state \<Rightarrow> app_state" where
  "removeBackground_resume oc s =
     (case tryBlock oc s of
        Inr s' \<Rightarrow> s'
      | Inl err \<Rightarrow> catchClause err s)\<lparr>isProcessing := False\<rparr>"

subsection \<open>\<open>reset\<close> (lines 101 to 106)\<close>

text \<open>The three setters; clearing the file input's value is outside the state.\<close>

definition reset :: "app_state \<Rightarrow> app_state" where
  "reset s = s\<lparr>sourceImage := None, resultImage := None, error := None\<rparr>"

subsection \<open>What is rendered (lines 151 to 240)\<close>

text \<open>
  The upload area, with the file input and the drop target, is rendered when
  \<open>!sourceImage\<close>; otherwise the panel with the bin button (\<open>reset\<close>). In that panel the
  button that calls \<open>removeBackground\<close> is rendered under \<open>!resultImage && !isProcessing\<close>.
\<close>

definition uploadAreaShown :: "app_state \<Rightarrow> bool" where
  "uploadAreaShown s = (\<not> truthy (sourceImage s))"

definition resetButtonShown :: "app_state \<Rightarrow> bool" where
  "resetButtonShown s = truthy (sourceImage s)"

definition removeButtonShown :: "app_state \<Rightarrow> bool" where
  "removeButtonShown s =
     (truthy (sourceImage s) \<and> \<not> truthy (resultImage s) \<and> \<not> isProcessing s)"

text \<open>
  The five pipeline states of the specification, read off the four state variables:
  \<open>Processing\<close> while the flag set before the \<open>await\<close> and cleared in \<open>finally\<close> is up;
  otherwise \<open>Idle\<close> without a source image, \<open>Succeeded\<close> with a result, \<open>Failed\<close> with
  an error, and \<open>Loaded\<close> with the source image alone.
\<close>

datatype pipeline_state = Idle | Loaded | Processing | Succeeded | Failed

definition pipelineState :: "app_state \<Rightarrow> pipeline_state" where
  "pipelineState s =
     (if isProcessing s then Processing
      else if \<not> truthy (sourceImage s) then Idle
      else if truthy (resultImage s) then Succeeded
      else if truthy (error s) then Failed
      else Loaded)"

subsection \<open>The component, its renders and its outstanding work\<close>

text \<open>
  The setters do not change what is on the screen: the next render does. Between two
  renders the controls on the screen, and the handlers bound to them, are those of the
  last render. So the component is modelled with the state that holds all setter calls
  so far (\<open>app\<close>), the state the last render showed (\<open>view\<close>), the files handed to a
  \<open>FileReader\<close> whose \<open>onload\<close> has not fired yet (\<open>reading\<close>), and the requests whose
  \<open>await\<close> has not resumed yet (\<open>inflight\<close>), oldest first.
\<close>

record system =
  app :: app_state
  view :: app_state
  reading :: "File list"
  inflight :: "request list"

definition start :: system where
  "start = \<lparr>app = initial, view = initial, reading = [], inflight = []\<rparr>"

text \<open>
  A call of \<open>removeBackground\<close> as the handler of an up-to-date render: the part before
  the \<open>await\<close> runs, the request goes out.
\<close>

definition startRemoval :: "system \<Rightarrow> system" where
  "startRemoval \<sigma> =
     (case removeBackground_begin (app \<sigma>) of
        (s', None) \<Rightarrow> \<sigma>\<lparr>app := s'\<rparr>
      | (s', Some rq) \<Rightarrow> \<sigma>\<lparr>app := s', inflight := inflight \<sigma> @ [rq]\<rparr>)"

text \<open>
  \<open>removeBackground\<close> up to its \<open>await\<close> as the closure of some render: the
  \<open>sourceImage\<close> it tests and splits is the one that render captured, the setters act on
  the current state. It never reads \<open>isProcessing\<close>. With the captured value equal to
  the current one this is \<open>removeBackground_begin\<close> (lemma \<open>removeBackground_call_current\<close>).
\<close>

definition removeBackground_call ::
  "string option \<Rightarrow> app_state \<Rightarrow> app_state \<times> request option" where
  "removeBackground_call captured s =
     (case captured of
        None \<Rightarrow> (s, None)
      | Some src \<Rightarrow>
          if src = [] then (s, None)
          else (s\<lparr>isProcessing := True, error := None\<rparr>, Some (buildRequest src)))"

text \<open>The \<open>k\<close>-th outstanding call settles with \<open>oc\<close>: the rest of its function runs.\<close>

definition settle :: "nat \<Rightarrow> outcome \<Rightarrow> system \<Rightarrow> system" where
  "settle k oc \<sigma> =
     (if k < length (inflight \<sigma>)
      then \<sigma>\<lparr>app := removeBackground_resume oc (app \<sigma>),
             inflight := take k (inflight \<sigma>) @ drop (Suc k) (inflight \<sigma>)\<rparr>
      else \<sigma>)"

text \<open>
  What can happen, one event at a time:
  \<^item> \<open>Render\<close>: the screen catches up with the state;
  \<^item> \<open>PickFile\<close>: a file is dropped on or picked in the upload area, if the last render
    shows it; \<open>processFile\<close> runs, and an accepted file is handed to a reader;
  \<^item> \<open>ReadDone k\<close>: the \<open>k\<close>-th pending read completes and its \<open>onload\<close> runs;
  \<^item> \<open>ClickRemove\<close>: a click on the remove button, if the last render shows it; the
    handler of that render runs;
  \<^item> \<open>ClickReset\<close>: a click on a reset button, if the last render shows one;
  \<^item> \<open>Settle k oc\<close>: the \<open>k\<close>-th outstanding model call settles.

  Nothing forces a render between two events: two clicks may reach the same rendered
  button.
\<close>

datatype event =
  Render | PickFile File | ReadDone nat | ClickRemove | ClickReset | Settle nat outcome

fun step :: "system \<Rightarrow> event \<Rightarrow> system" where
  "step \<sigma> Render = \<sigma>\<lparr>view := app \<sigma>\<rparr>"
| "step \<sigma> (PickFile f) =
     (if uploadAreaShown (view \<sigma>)
      then (case processFile f (app \<sigma>) of
              (s', None) \<Rightarrow> \<sigma>\<lparr>app := s'\<rparr>
            | (s', Some g) \<Rightarrow> \<sigma>\<lparr>app := s', reading := reading \<sigma> @ [g]\<rparr>)
      else \<sigma>)"
| "step \<sigma> (ReadDone k) =
     (case index (reading \<sigma>) k of
        None \<Rightarrow> \<sigma>
      | Some g \<Rightarrow>
          \<sigma>\<lparr>app := onload (readAsDataURL g) (app \<sigma>),
            reading := take k (reading \<sigma>) @ drop (Suc k) (reading \<sigma>)\<rparr>)"
| "step \<sigma> ClickRemove =
     (if removeButtonShown (view \<sigma>)
      then (case removeBackground_call (sourceImage (view \<sigma>)) (app \<sigma>) of
              (s', None) \<Rightarrow> \<sigma>\<lparr>app := s'\<rparr>
            | (s', Some rq) \<Rightarrow> \<sigma>\<lparr>app := s', inflight := inflight \<sigma> @ [rq]\<rparr>)
      else \<sigma>)"
| "step \<sigma> ClickReset =
     (if resetButtonShown (view \<sigma>) then \<sigma>\<lparr>app := reset (app \<sigma>)\<rparr> else \<sigma>)"
| "step \<sigma> (Settle k oc) = settle k oc \<sigma>"

definition run :: "event list \<Rightarrow> system" where
  "run evs = foldl step start evs"

text \<open>The event sequence in which a render comes before every event.\<close>

fun rendered :: "event list \<Rightarrow> event list" where
  "rendered [] = []"
| "rendered (e # evs) = Render # e # rendered evs"

subsection \<open>An invariant of runs that render before every event\<close>

text \<open>At most one call is outstanding, and while one is, the processing flag is up.\<close>

definition oneInFlight :: "system \<Rightarrow> bool" where
  "oneInFlight \<sigma> =
     (length (inflight \<sigma>) \<le> 1 \<and> (inflight \<sigma> \<noteq> [] \<longrightarrow> isProcessing (app \<sigma>)))"

subsection \<open>Sample values\<close>

definition samplePng :: File where
  "samplePng = \<lparr>type = ''image/png'', bytes = [0x89, 0x50, 0x4E, 0x47]\<rparr>"

definition sampleJpeg :: File where
  "sampleJpeg = \<lparr>type = ''image/jpeg'', bytes = [0xFF, 0xD8, 0xFF]\<rparr>"

definition samplePdf :: File where
  "samplePdf = \<lparr>type = ''application/pdf'', bytes = [0x25, 0x50, 0x44, 0x46]\<rparr>"

text \<open>Two files whose type passes the test of \<open>processFile\<close> and holds a separator.\<close>

definition sampleSvg :: File where
  "sampleSvg = \<lparr>type = ''image/svg+xml;charset=utf-8'', bytes = [0x3C, 0x73, 0x76]\<rparr>"

definition sampleComma :: File where
  "sampleComma = \<lparr>type = ''image/a,b'', bytes = [0x89, 0x50, 0x4E, 0x47]\<rparr>"

definition imagePart :: "string \<Rightarrow> part" where
  "imagePart d =
     \<lparr>inlineData = Some \<lparr>data = Some d, mimeType = Some ''image/png''\<rparr>, text' = None\<rparr>"

definition textPart :: "string \<Rightarrow> part" where
  "textPart t = \<lparr>inlineData = None, text' = Some t\<rparr>"

definition replyWith :: "part list \<Rightarrow> response" where
  "replyWith ps = \<lparr>candidates = Some [\<lparr>content = Some \<lparr>parts = Some ps\<rparr>\<rparr>]\<rparr>"

text \<open>The states a session passes through, named after the events that lead to them.\<close>

definition loadedPng :: app_state where
  "loadedPng =
     \<lparr>sourceImage = Some ''data:image/png;base64,iVBORw=='', resultImage = None,
      isProcessing = False, error = None\<rparr>"

definition processingPng :: app_state where
  "processingPng = loadedPng\<lparr>isProcessing := True\<rparr>"

definition failedPng :: app_state where
  "failedPng = loadedPng\<lparr>error := Some noImageMessage\<rparr>"

definition succeededPng :: app_state where
  "succeededPng = loadedPng\<lparr>resultImage := Some ''data:image/png;base64,QUJD''\<rparr>"

section \<open>Properties\<close>

subsection \<open>Helper facts\<close>

lemma split_nonempty: "split s c \<noteq> []"
  by (induction s) (simp_all split: list.splits)

lemma split_without: "c \<notin> set a \<Longrightarrow> split a c = [a]"
  by (induction a) auto

lemma split_at_first: "c \<notin> set a \<Longrightarrow> split (a @ c # b) c = a # split b c"
  by (induction a) auto

lemma index_split_0: "index (split s c) 0 = Some (takeWhile (\<lambda>x. x \<noteq> c) s)"
proof (induction s)
  case Nil
  show ?case by simp
next
  case (Cons x xs)
  then show ?case by (cases "split xs c") (auto simp add: split_nonempty)
qed

lemma alphabet_no_comma: "CHR '','' \<notin> set alphabet"
  by (simp add: alphabet_def)

lemma sextet_in_alphabet: "sextet n \<in> set alphabet"
  unfolding sextet_def by (rule nth_mem) (simp add: alphabet_def)

lemma sextet_no_comma: "CHR '','' \<noteq> sextet n"
  using sextet_in_alphabet [of n] alphabet_no_comma by metis

lemma base64_no_comma: "CHR '','' \<notin> set (base64 bs)"
  by (induction bs rule: base64.induct) (simp_all add: sextet_no_comma)

lemma dataURL_data:
  assumes "CHR '','' \<notin> set ty"
  shows "index (split (''data:'' @ ty @ '';base64,'' @ base64 bs) CHR '','') 1
           = Some (base64 bs)"
proof -
  have "CHR '','' \<notin> set (''data:'' @ ty @ '';base64'')"
    using assms by simp
  then have "split ((''data:'' @ ty @ '';base64'') @ CHR '','' # base64 bs) CHR '',''
      = (''data:'' @ ty @ '';base64'') # split (base64 bs) CHR '',''"
    by (rule split_at_first)
  moreover have "split (base64 bs) CHR '','' = [base64 bs]"
    by (rule split_without) (rule base64_no_comma)
  ultimately show ?thesis by simp
qed

lemma dataURL_mimeType:
  assumes "CHR '';'' \<notin> set ty" and "CHR '':'' \<notin> set ty"
  shows "(case index (split (''data:'' @ ty @ '';base64,'' @ b) CHR '';'') 0 of
            None \<Rightarrow> None
          | Some h \<Rightarrow> index (split h CHR '':'') 1) = Some ty"
proof -
  have "CHR '';'' \<notin> set (''data:'' @ ty)"
    using assms by simp
  then have "split ((''data:'' @ ty) @ CHR '';'' # (''base64,'' @ b)) CHR '';''
      = (''data:'' @ ty) # split (''base64,'' @ b) CHR '';''"
    by (rule split_at_first)
  then have h: "index (split (''data:'' @ ty @ '';base64,'' @ b) CHR '';'') 0
      = Some (''data:'' @ ty)"
    by simp
  have "split (''data'' @ CHR '':'' # ty) CHR '':'' = ''data'' # split ty CHR '':''"
    by (rule split_at_first) simp
  then have "index (split (''data:'' @ ty) CHR '':'') 1 = Some ty"
    using assms(2) by (simp add: split_without)
  with h show ?thesis by simp
qed

lemma scanParts_first:
  "\<forall>q\<in>set pre. inlineData q = None \<Longrightarrow> inlineData p = Some b \<Longrightarrow>
   scanParts (pre @ p # post) = Some (''data:image/png;base64,'' @ interpolate (data b))"
  by (induction pre) simp_all

lemma scanParts_none: "\<forall>q\<in>set ps. inlineData q = None \<Longrightarrow> scanParts ps = None"
  by (induction ps) simp_all

text \<open>Every part list with an inline part splits at the first one.\<close>

lemma first_inline_part_exists:
  assumes "\<exists>p\<in>set ps. inlineData p \<noteq> None"
  shows "\<exists>pre p b post. ps = pre @ p # post \<and> (\<forall>q\<in>set pre. inlineData q = None)
           \<and> inlineData p = Some b"
proof -
  from assms obtain pre p post where
    "ps = pre @ p # post" and "inlineData p \<noteq> None" and "\<forall>q\<in>set pre. \<not> inlineData q \<noteq> None"
    using split_list_first_prop [of ps "\<lambda>p. inlineData p \<noteq> None"] by blast
  then show ?thesis by auto
qed

lemma ingestFile_isProcessing: "isProcessing (ingestFile f s) = isProcessing s"
  by (simp add: ingestFile_def processFile_def onload_def)

lemma reset_isProcessing: "isProcessing (reset s) = isProcessing s"
  by (simp add: reset_def)

lemma begin_isProcessing:
  "truthy (sourceImage s) \<Longrightarrow> isProcessing (fst (removeBackground_begin s))"
  by (cases "sourceImage s") (simp_all add: removeBackground_begin_def)

lemma removeBackground_call_current:
  "removeBackground_call (sourceImage s) s = removeBackground_begin s"
  by (simp add: removeBackground_call_def removeBackground_begin_def)

lemma run_append: "run (xs @ ys) = foldl step (run xs) ys"
  by (simp add: run_def)

lemma oneInFlight_Render: "oneInFlight (step \<sigma> Render) = oneInFlight \<sigma>"
  by (simp add: oneInFlight_def)

lemma oneInFlight_step:
  assumes "oneInFlight \<sigma>" and "view \<sigma> = app \<sigma>"
  shows "oneInFlight (step \<sigma> e)"
proof (cases e)
  case Render
  then show ?thesis
    using assms by (simp add: oneInFlight_def)
next
  case (PickFile f)
  then show ?thesis
    using assms by (simp add: oneInFlight_def processFile_def)
next
  case (ReadDone k)
  then show ?thesis
    using assms by (simp add: oneInFlight_def onload_def split: option.splits)
next
  case ClickRemove
  then show ?thesis
    using assms
    by (cases "sourceImage (app \<sigma>)")
       (auto simp add: oneInFlight_def removeButtonShown_def removeBackground_call_def)
next
  case ClickReset
  then show ?thesis
    using assms by (simp add: oneInFlight_def reset_isProcessing)
next
  case (Settle k oc)
  then show ?thesis
    using assms by (auto simp add: oneInFlight_def settle_def)
qed

lemma oneInFlight_rendered_from:
  "oneInFlight \<sigma> \<Longrightarrow> oneInFlight (foldl step \<sigma> (rendered evs))"
proof (induction evs arbitrary: \<sigma>)
  case Nil
  then show ?case by simp
next
  case (Cons e evs)
  have "oneInFlight (step \<sigma> Render)"
    using Cons.prems by (simp only: oneInFlight_Render)
  then have "oneInFlight (step (step \<sigma> Render) e)"
    by (rule oneInFlight_step) simp
  then show ?case
    using Cons.IH by simp
qed

lemma oneInFlight_rendered: "oneInFlight (run (rendered evs))"
  unfolding run_def
  by (rule oneInFlight_rendered_from) (simp add: oneInFlight_def start_def)

text \<open>The sample states are the ones the events lead to.\<close>

lemma run_loaded:
  "run [PickFile samplePng, ReadDone 0, Render] =
     \<lparr>app = loadedPng, view = loadedPng, reading = [], inflight = []\<rparr>"
  by (simp add: run_def start_def initial_def uploadAreaShown_def processFile_def
      startsWith_def samplePng_def onload_def readAsDataURL_def sextet_def alphabet_def
      loadedPng_def)

lemma run_processing:
  "run [PickFile samplePng, ReadDone 0, Render, ClickRemove] =
     \<lparr>app = processingPng, view = loadedPng, reading = [],
      inflight = [buildRequest ''data:image/png;base64,iVBORw=='']\<rparr>"
proof -
  have "run ([PickFile samplePng, ReadDone 0, Render] @ [ClickRemove])
          = step (run [PickFile samplePng, ReadDone 0, Render]) ClickRemove"
    unfolding run_append by simp
  then show ?thesis
    by (simp add: run_loaded removeButtonShown_def removeBackground_call_def loadedPng_def
        processingPng_def)
qed

lemma run_reset_while_processing:
  "run [PickFile samplePng, ReadDone 0, Render, ClickRemove, Render, ClickReset] =
     \<lparr>app = reset processingPng, view = processingPng, reading = [],
      inflight = [buildRequest ''data:image/png;base64,iVBORw=='']\<rparr>"
proof -
  have "run ([PickFile samplePng, ReadDone 0, Render, ClickRemove] @ [Render, ClickReset])
          = foldl step (run [PickFile samplePng, ReadDone 0, Render, ClickRemove])
              [Render, ClickReset]"
    by (rule run_append)
  then show ?thesis
    by (simp add: run_processing resetButtonShown_def processingPng_def loadedPng_def)
qed

lemma after_reset:
  "run ([PickFile samplePng, ReadDone 0, Render, ClickRemove, Render, ClickReset] @ rest) =
     foldl step
       \<lparr>app = reset processingPng, view = processingPng, reading = [],
        inflight = [buildRequest ''data:image/png;base64,iVBORw=='']\<rparr> rest"
  by (simp only: run_append run_reset_while_processing)

subsection \<open>Ingestion\<close>

text \<open>
  Claim C3. A file whose declared type does not start with \<open>image/\<close> is rejected:
  \<open>processFile\<close> sets the error to the invalid-file message and hands nothing to the
  reader, so no source image is produced and ingestion changes the error and nothing
  else: the source image, the result image and the processing flag are as before. Where
  a file can be picked at all, that is where the upload area is shown, the five-state
  view of the pipeline is unchanged as well.
\<close>

theorem processFile_rejects_non_image:
  assumes "\<not> startsWith (type f) ''image/''"
  shows "processFile f s = (s\<lparr>error := Some invalidFileMessage\<rparr>, None)
       \<and> ingestFile f s = s\<lparr>error := Some invalidFileMessage\<rparr>
       \<and> sourceImage (ingestFile f s) = sourceImage s
       \<and> resultImage (ingestFile f s) = resultImage s
       \<and> isProcessing (ingestFile f s) = isProcessing s
       \<and> (uploadAreaShown s \<longrightarrow> pipelineState (ingestFile f s) = pipelineState s)"
  using assms by (simp add: processFile_def ingestFile_def pipelineState_def uploadAreaShown_def)

text \<open>
  Claim C3 at a PDF: picked in the initial state, and handed to \<open>processFile\<close> while an
  image is loaded. The error shows, the rest stays.
\<close>

theorem processFile_rejects_non_image_witness:
  "\<not> startsWith (type samplePdf) ''image/''
   \<and> uploadAreaShown initial
   \<and> ingestFile samplePdf initial
       = initial\<lparr>error := Some ''Please upload a valid image file.''\<rparr>
   \<and> pipelineState (ingestFile samplePdf initial) = Idle
   \<and> processFile samplePdf loadedPng
       = (loadedPng\<lparr>error := Some ''Please upload a valid image file.''\<rparr>, None)
   \<and> sourceImage (ingestFile samplePdf loadedPng) = Some ''data:image/png;base64,iVBORw==''"
  using processFile_rejects_non_image [of samplePdf loadedPng]
    processFile_rejects_non_image [of samplePdf initial]
  by (simp add: startsWith_def samplePdf_def invalidFileMessage_def loadedPng_def
      uploadAreaShown_def initial_def pipelineState_def)

text \<open>
  Claim C4 as stated fails. After a reset during a model call the upload area is shown
  again while \<open>isProcessing\<close> is still up; an image ingested then leaves the flag up, so
  the pipeline is in the very state that starting a removal produced, not in \<open>Loaded\<close>.
\<close>

theorem ingestFile_while_processing_counterexample:
  "startsWith (type samplePng) ''image/''
   \<and> app (run [PickFile samplePng, ReadDone 0, Render, ClickRemove, Render, ClickReset])
       = reset processingPng
   \<and> uploadAreaShown (reset processingPng)
   \<and> ingestFile samplePng (reset processingPng) = processingPng
   \<and> app (run [PickFile samplePng, ReadDone 0, Render, ClickRemove, Render, ClickReset,
                Render, PickFile samplePng, ReadDone 0]) = processingPng
   \<and> pipelineState (ingestFile samplePng (reset processingPng)) = Processing
   \<and> pipelineState (ingestFile samplePng (reset processingPng)) \<noteq> Loaded"
proof -
  have ingest: "ingestFile samplePng (reset processingPng) = processingPng"
    by (simp add: ingestFile_def processFile_def startsWith_def samplePng_def onload_def
        readAsDataURL_def sextet_def alphabet_def reset_def processingPng_def loadedPng_def)
  have "run [PickFile samplePng, ReadDone 0, Render, ClickRemove, Render, ClickReset,
              Render, PickFile samplePng, ReadDone 0]
          = foldl step
              \<lparr>app = reset processingPng, view = processingPng, reading = [],
               inflight = [buildRequest ''data:image/png;base64,iVBORw=='']\<rparr>
              [Render, PickFile samplePng, ReadDone 0]"
    using after_reset [of "[Render, PickFile samplePng, ReadDone 0]"] by simp
  also have "app \<dots> = processingPng"
    by (simp add: uploadAreaShown_def processFile_def startsWith_def samplePng_def
        onload_def readAsDataURL_def sextet_def alphabet_def reset_def processingPng_def
        loadedPng_def)
  finally have "app (run [PickFile samplePng, ReadDone 0, Render, ClickRemove, Render,
                ClickReset, Render, PickFile samplePng, ReadDone 0]) = processingPng" .
  moreover have "pipelineState processingPng = Processing"
    by (simp add: pipelineState_def processingPng_def)
  moreover have "startsWith (type samplePng) ''image/''"
    by (simp add: startsWith_def samplePng_def)
  moreover have "uploadAreaShown (reset processingPng)"
    by (simp add: uploadAreaShown_def reset_def)
  moreover have "app (run [PickFile samplePng, ReadDone 0, Render, ClickRemove, Render,
                  ClickReset]) = reset processingPng"
    by (simp only: run_reset_while_processing system.simps)
  ultimately show ?thesis
    using ingest by simp
qed

text \<open>
  Claim C4, amended. For a file whose declared type starts with \<open>image/\<close> and whose read
  completes, ingestion from any state stores the file's data URL as the source image,
  clears the result image and the error, and leaves \<open>isProcessing\<close> as it was; the
  pipeline is \<open>Loaded\<close> afterwards whenever no model call was in progress.
\<close>

theorem ingestFile_image:
  assumes "startsWith (type f) ''image/''"
  shows "ingestFile f s =
           \<lparr>sourceImage = Some (readAsDataURL f), resultImage = None,
            isProcessing = isProcessing s, error = None\<rparr>
       \<and> (\<not> isProcessing s \<longrightarrow> pipelineState (ingestFile f s) = Loaded)"
  using assms
  by (simp add: ingestFile_def processFile_def onload_def pipelineState_def readAsDataURL_def)

text \<open>Claim C4, amended, at a JPEG that replaces a finished result.\<close>

theorem ingestFile_image_witness:
  "startsWith (type sampleJpeg) ''image/'' \<and> \<not> isProcessing succeededPng
   \<and> ingestFile sampleJpeg succeededPng =
       \<lparr>sourceImage = Some ''data:image/jpeg;base64,/9j/'', resultImage = None,
        isProcessing = False, error = None\<rparr>
   \<and> pipelineState (ingestFile sampleJpeg succeededPng) = Loaded"
  using ingestFile_image [of sampleJpeg succeededPng]
  by (simp add: startsWith_def sampleJpeg_def succeededPng_def loadedPng_def readAsDataURL_def
      sextet_def alphabet_def pipelineState_def)

subsection \<open>The request\<close>

text \<open>
  Claim C5 as stated fails. \<open>processFile\<close> accepts every type that starts with
  \<open>image/\<close>, and \<open>removeBackground\<close> recovers data and media type by splitting the stored
  data URL at \<open>,\<close> \<open>;\<close> and \<open>:\<close>. A type with a parameter is sent cut at its \<open>;\<close>; with
  a comma in the type, the data sent is a piece of the URL's header, not the image.
\<close>

theorem buildRequest_separator_counterexample:
  "startsWith (type sampleSvg) ''image/''
   \<and> sourceImage (ingestFile sampleSvg initial)
       = Some ''data:image/svg+xml;charset=utf-8;base64,PHN2''
   \<and> buildRequest ''data:image/svg+xml;charset=utf-8;base64,PHN2'' =
       \<lparr>model = ''gemini-2.5-flash-image'', contents = \<lparr>parts = Some
         [\<lparr>inlineData = Some \<lparr>data = Some ''PHN2'', mimeType = Some ''image/svg+xml''\<rparr>,
           text' = None\<rparr>,
          \<lparr>inlineData = None, text' = Some instruction\<rparr>]\<rparr>\<rparr>
   \<and> ''image/svg+xml'' \<noteq> type sampleSvg
   \<and> startsWith (type sampleComma) ''image/''
   \<and> sourceImage (ingestFile sampleComma initial) = Some ''data:image/a,b;base64,iVBORw==''
   \<and> base64 (bytes sampleComma) = ''iVBORw==''
   \<and> buildRequest ''data:image/a,b;base64,iVBORw=='' =
       \<lparr>model = ''gemini-2.5-flash-image'', contents = \<lparr>parts = Some
         [\<lparr>inlineData = Some \<lparr>data = Some ''b;base64'', mimeType = Some ''image/a,b''\<rparr>,
           text' = None\<rparr>,
          \<lparr>inlineData = None, text' = Some instruction\<rparr>]\<rparr>\<rparr>"
  by (simp add: startsWith_def sampleSvg_def sampleComma_def ingestFile_def processFile_def
      onload_def initial_def readAsDataURL_def sextet_def alphabet_def buildRequest_def
      modelName_def)

text \<open>
  Claim C5, amended. The request built from any stored source image has exactly two
  parts, in this order: an inline-data part and a text part carrying the fixed
  instruction, which does not depend on the image; \<open>buildRequest\<close> is a function, so the
  same image always gives the same request. For the data URL of a file whose declared
  media type contains none of the separators \<open>,\<close> \<open>;\<close> \<open>:\<close> the inline part carries the
  base64 encoding of the file's bytes and the file's media type.
\<close>

theorem buildRequest_two_parts:
  "(\<exists>d m. buildRequest src =
      \<lparr>model = ''gemini-2.5-flash-image'', contents = \<lparr>parts = Some
         [\<lparr>inlineData = Some \<lparr>data = d, mimeType = m\<rparr>, text' = None\<rparr>,
          \<lparr>inlineData = None, text' = Some ''Remove the background from this image and return only the subject with a transparent background. Output the result as an image.''\<rparr>]\<rparr>\<rparr>) \<and>
   (set (type f) \<inter> {CHR '','', CHR '';'', CHR '':''} = {} \<longrightarrow>
    buildRequest (readAsDataURL f) =
      \<lparr>model = ''gemini-2.5-flash-image'', contents = \<lparr>parts = Some
         [\<lparr>inlineData = Some \<lparr>data = Some (base64 (bytes f)), mimeType = Some (type f)\<rparr>,
           text' = None\<rparr>,
          \<lparr>inlineData = None, text' = Some ''Remove the background from this image and return only the subject with a transparent background. Output the result as an image.''\<rparr>]\<rparr>\<rparr>)"
proof (intro conjI impI)
  show "\<exists>d m. buildRequest src =
      \<lparr>model = ''gemini-2.5-flash-image'', contents = \<lparr>parts = Some
         [\<lparr>inlineData = Some \<lparr>data = d, mimeType = m\<rparr>, text' = None\<rparr>,
          \<lparr>inlineData = None, text' = Some ''Remove the background from this image and return only the subject with a transparent background. Output the result as an image.''\<rparr>]\<rparr>\<rparr>"
    by (simp add: buildRequest_def Let_def modelName_def instruction_def)
next
  assume "set (type f) \<inter> {CHR '','', CHR '';'', CHR '':''} = {}"
  then have comma: "CHR '','' \<notin> set (type f)"
    and semi: "CHR '';'' \<notin> set (type f)"
    and colon: "CHR '':'' \<notin> set (type f)"
    by auto
  show "buildRequest (readAsDataURL f) =
      \<lparr>model = ''gemini-2.5-flash-image'', contents = \<lparr>parts = Some
         [\<lparr>inlineData = Some \<lparr>data = Some (base64 (bytes f)), mimeType = Some (type f)\<rparr>,
           text' = None\<rparr>,
          \<lparr>inlineData = None, text' = Some ''Remove the background from this image and return only the subject with a transparent background. Output the result as an image.''\<rparr>]\<rparr>\<rparr>"
    unfolding buildRequest_def readAsDataURL_def Let_def modelName_def instruction_def
    using dataURL_data [OF comma, of "bytes f"]
      dataURL_mimeType [OF semi colon, of "base64 (bytes f)"]
    by simp
qed

text \<open>Claim C5, amended, at the sample PNG.\<close>

theorem buildRequest_two_parts_witness:
  "set (type samplePng) \<inter> {CHR '','', CHR '';'', CHR '':''} = {}
   \<and> readAsDataURL samplePng = ''data:image/png;base64,iVBORw==''
   \<and> buildRequest ''data:image/png;base64,iVBORw=='' =
       \<lparr>model = ''gemini-2.5-flash-image'', contents = \<lparr>parts = Some
         [\<lparr>inlineData = Some \<lparr>data = Some ''iVBORw=='', mimeType = Some ''image/png''\<rparr>,
           text' = None\<rparr>,
          \<lparr>inlineData = None, text' = Some ''Remove the background from this image and return only the subject with a transparent background. Output the result as an image.''\<rparr>]\<rparr>\<rparr>"
  using buildRequest_two_parts [of "[]" samplePng]
  by (simp add: samplePng_def readAsDataURL_def sextet_def alphabet_def)

subsection \<open>The reply\<close>

text \<open>
  Claim C6. When the parts of the reply's first candidate are some parts without inline
  data, then a part with inline data, then anything, the rest of \<open>removeBackground\<close>
  stores the PNG data URL of that first inline part as the result image and clears the
  processing flag; the parts before it and after it have no effect, and the error is
  untouched.
\<close>

theorem first_inline_part_wins:
  assumes "responseParts r = pre @ p # post"
    and "\<forall>q\<in>set pre. inlineData q = None"
    and "inlineData p = Some b"
  shows "removeBackground_resume (Replied r) s =
           s\<lparr>resultImage := Some (''data:image/png;base64,'' @ interpolate (data b)),
             isProcessing := False\<rparr>"
  using assms by (simp add: removeBackground_resume_def scanParts_first)

text \<open>Claim C6 at a reply with a text part and two image parts: the first image wins.\<close>

theorem first_inline_part_wins_witness:
  "responseParts (replyWith [textPart ''Here you go'', imagePart ''QUJD'', imagePart ''WFla''])
     = [textPart ''Here you go''] @ imagePart ''QUJD'' # [imagePart ''WFla'']
   \<and> inlineData (textPart ''Here you go'') = None
   \<and> inlineData (imagePart ''QUJD'') = Some \<lparr>data = Some ''QUJD'', mimeType = Some ''image/png''\<rparr>
   \<and> removeBackground_resume
        (Replied (replyWith [textPart ''Here you go'', imagePart ''QUJD'', imagePart ''WFla'']))
        processingPng = succeededPng"
  using first_inline_part_wins
    [of "replyWith [textPart ''Here you go'', imagePart ''QUJD'', imagePart ''WFla'']"
        "[textPart ''Here you go'']" "imagePart ''QUJD''" "[imagePart ''WFla'']"
        "\<lparr>data = Some ''QUJD'', mimeType = Some ''image/png''\<rparr>" processingPng]
  by (simp add: responseParts_def replyWith_def textPart_def imagePart_def processingPng_def
      succeededPng_def loadedPng_def)

text \<open>
  Claim C7. When no part of the reply's first candidate has inline data (the reply may
  also have no candidates, no content or no parts), the rest of \<open>removeBackground\<close> sets
  the error to the no-image message, clears the processing flag and changes nothing else.
  With a source image held and no result image, as when the removal was started, the
  pipeline is then \<open>Failed\<close> and holds no result image.
\<close>

theorem no_inline_part_fails:
  assumes "\<forall>q\<in>set (responseParts r). inlineData q = None"
  shows "removeBackground_resume (Replied r) s
           = s\<lparr>error := Some noImageMessage, isProcessing := False\<rparr>
       \<and> (truthy (sourceImage s) \<and> \<not> truthy (resultImage s) \<longrightarrow>
            pipelineState (removeBackground_resume (Replied r) s) = Failed
            \<and> \<not> truthy (resultImage (removeBackground_resume (Replied r) s)))"
  using assms
  by (simp add: removeBackground_resume_def scanParts_none catchClause_def noImageMessage_def
      pipelineState_def)

text \<open>Claim C7 at a reply with text only, and at a reply without candidates.\<close>

theorem no_inline_part_fails_witness:
  "responseParts (replyWith [textPart ''I cannot do that'']) = [textPart ''I cannot do that'']
   \<and> inlineData (textPart ''I cannot do that'') = None
   \<and> responseParts \<lparr>candidates = None\<rparr> = []
   \<and> truthy (sourceImage processingPng) \<and> \<not> truthy (resultImage processingPng)
   \<and> removeBackground_resume (Replied (replyWith [textPart ''I cannot do that''])) processingPng
       = failedPng
   \<and> pipelineState failedPng = Failed
   \<and> removeBackground_resume (Replied \<lparr>candidates = None\<rparr>) processingPng = failedPng"
  using no_inline_part_fails [of "replyWith [textPart ''I cannot do that'']" processingPng]
    no_inline_part_fails [of "\<lparr>candidates = None\<rparr>" processingPng]
  by (simp add: responseParts_def replyWith_def textPart_def processingPng_def failedPng_def
      loadedPng_def pipelineState_def noImageMessage_def)

subsection \<open>Starting a removal\<close>

text \<open>
  Claim C9. Without a source image (\<open>null\<close>, or the empty string) \<open>removeBackground\<close>
  returns at its first line: no request is sent and the state, all four variables of it,
  is what it was; the outstanding calls are unchanged too.
\<close>

theorem removeBackground_without_source:
  assumes "\<not> truthy (sourceImage (app \<sigma>))"
  shows "removeBackground_begin (app \<sigma>) = (app \<sigma>, None) \<and> startRemoval \<sigma> = \<sigma>"
  using assms
  by (cases "sourceImage (app \<sigma>)") (simp_all add: removeBackground_begin_def startRemoval_def)

text \<open>Claim C9 at the initial state.\<close>

theorem removeBackground_without_source_witness:
  "\<not> truthy (sourceImage (app start))
   \<and> removeBackground_begin initial = (initial, None)
   \<and> startRemoval start = start"
  using removeBackground_without_source [of start]
  by (simp add: start_def initial_def)

text \<open>
  Claim C10. \<open>removeBackground\<close> asks for a source image only. With a source image
  held and an error set it clears the error, raises the processing flag and sends the
  request built from the stored image: state and request are those of the same call
  without the error, nothing is ingested again. In the \<open>Failed\<close> state the remove button
  is rendered, and the state without the error is \<open>Loaded\<close>.
\<close>

theorem removeBackground_retry_from_failed:
  assumes "truthy (sourceImage s)" and "truthy (error s)"
  shows "removeBackground_begin s = removeBackground_begin (s\<lparr>error := None\<rparr>)
       \<and> (\<exists>src. sourceImage s = Some src
             \<and> removeBackground_begin s
                 = (s\<lparr>isProcessing := True, error := None\<rparr>, Some (buildRequest src)))
       \<and> error (fst (removeBackground_begin s)) = None
       \<and> pipelineState (fst (removeBackground_begin s)) = Processing
       \<and> (pipelineState s = Failed \<longrightarrow>
            removeButtonShown s \<and> pipelineState (s\<lparr>error := None\<rparr>) = Loaded)"
  using assms
  by (cases "sourceImage s")
     (auto simp add: pipelineState_def removeButtonShown_def removeBackground_begin_def
        split: if_splits)

text \<open>Claim C10 at the state a text-only reply left behind.\<close>

theorem removeBackground_retry_from_failed_witness:
  "truthy (sourceImage failedPng) \<and> truthy (error failedPng)
   \<and> pipelineState failedPng = Failed
   \<and> removeButtonShown failedPng
   \<and> removeBackground_begin failedPng
       = (processingPng, Some (buildRequest ''data:image/png;base64,iVBORw==''))
   \<and> removeBackground_begin loadedPng
       = (processingPng, Some (buildRequest ''data:image/png;base64,iVBORw==''))"
proof -
  have src: "truthy (sourceImage failedPng)"
    by (simp add: failedPng_def loadedPng_def)
  have err: "truthy (error failedPng)"
    by (simp add: failedPng_def loadedPng_def noImageMessage_def)
  have failed: "pipelineState failedPng = Failed"
    by (simp add: pipelineState_def failedPng_def loadedPng_def noImageMessage_def)
  have "failedPng\<lparr>error := None\<rparr> = loadedPng"
    by (simp add: failedPng_def loadedPng_def)
  with removeBackground_retry_from_failed [OF src err] failed
  have "removeButtonShown failedPng"
    and "removeBackground_begin failedPng = removeBackground_begin loadedPng"
    by simp_all
  moreover have "removeBackground_begin loadedPng
       = (processingPng, Some (buildRequest ''data:image/png;base64,iVBORw==''))"
    by (simp add: removeBackground_begin_def loadedPng_def processingPng_def)
  ultimately show ?thesis
    using src err failed by simp
qed

text \<open>
  Claim C2 as stated fails. \<open>removeBackground\<close> tests the source image only, never the
  processing flag. A second click that reaches the remove button before the next render
  runs the handler while the first call is outstanding and sends a second request; so
  does any other call of the handler in a processing state.
\<close>

theorem startRemoval_while_processing_counterexample:
  "pipelineState (app (run [PickFile samplePng, ReadDone 0, Render, ClickRemove])) = Processing
   \<and> length (inflight (run [PickFile samplePng, ReadDone 0, Render, ClickRemove])) = 1
   \<and> length (inflight (run [PickFile samplePng, ReadDone 0, Render, ClickRemove,
                              ClickRemove])) = 2
   \<and> length (inflight (startRemoval
                (run [PickFile samplePng, ReadDone 0, Render, ClickRemove]))) = 2
   \<and> startRemoval (run [PickFile samplePng, ReadDone 0, Render, ClickRemove])
       \<noteq> run [PickFile samplePng, ReadDone 0, Render, ClickRemove]"
proof -
  have "run ([PickFile samplePng, ReadDone 0, Render, ClickRemove] @ [ClickRemove])
          = foldl step (run [PickFile samplePng, ReadDone 0, Render, ClickRemove])
              [ClickRemove]"
    by (rule run_append)
  then have "length (inflight (run [PickFile samplePng, ReadDone 0, Render, ClickRemove,
                              ClickRemove])) = 2"
    by (simp add: run_processing removeButtonShown_def removeBackground_call_def
        loadedPng_def)
  then show ?thesis
    by (simp add: run_processing pipelineState_def processingPng_def loadedPng_def
        startRemoval_def removeBackground_begin_def)
qed

text \<open>
  Claim C2, amended. \<open>removeBackground\<close> itself has no guard on \<open>isProcessing\<close>. The
  guard is the render condition of its button: on every render that shows a state with
  the flag up the button is absent, so a click there is a no-op (state, stored images
  and outstanding requests unchanged). Along every sequence of events in which a render
  comes before each event, at most one model request is outstanding.
\<close>

theorem remove_click_while_processing:
  "(isProcessing (view \<sigma>) \<longrightarrow> step \<sigma> ClickRemove = \<sigma>)
   \<and> length (inflight (run (rendered evs))) \<le> 1"
  using oneInFlight_rendered [of evs] by (simp add: removeButtonShown_def oneInFlight_def)

text \<open>Claim C2, amended, at a second click after the render that shows the call.\<close>

theorem remove_click_while_processing_witness:
  "isProcessing (view (run [PickFile samplePng, ReadDone 0, Render, ClickRemove, Render]))
   \<and> step (run [PickFile samplePng, ReadDone 0, Render, ClickRemove, Render]) ClickRemove
       = run [PickFile samplePng, ReadDone 0, Render, ClickRemove, Render]
   \<and> length (inflight (run (rendered [PickFile samplePng, ReadDone 0, ClickRemove,
                                       ClickRemove]))) \<le> 1"
proof -
  have "run ([PickFile samplePng, ReadDone 0, Render, ClickRemove] @ [Render])
          = foldl step (run [PickFile samplePng, ReadDone 0, Render, ClickRemove]) [Render]"
    by (rule run_append)
  then have up: "isProcessing
      (view (run [PickFile samplePng, ReadDone 0, Render, ClickRemove, Render]))"
    by (simp add: run_processing processingPng_def)
  from remove_click_while_processing
    [of "run [PickFile samplePng, ReadDone 0, Render, ClickRemove, Render]"
        "[PickFile samplePng, ReadDone 0, ClickRemove, ClickRemove]"]
  show ?thesis
    using up by simp
qed

subsection \<open>Reset\<close>

text \<open>
  Claim C8 as stated fails. \<open>reset\<close> does not touch \<open>isProcessing\<close>: called during a
  model call it leaves a state that is not the initial one, and an ingestion from there
  lands in the processing state again instead of \<open>Loaded\<close>.
\<close>

theorem reset_while_processing_counterexample:
  "pipelineState processingPng = Processing
   \<and> app (run [PickFile samplePng, ReadDone 0, Render, ClickRemove, Render, ClickReset])
       = reset processingPng
   \<and> reset processingPng \<noteq> initial
   \<and> isProcessing (reset processingPng)
   \<and> pipelineState (reset processingPng) \<noteq> Idle
   \<and> pipelineState (ingestFile samplePng initial) = Loaded
   \<and> pipelineState (ingestFile samplePng (reset processingPng)) = Processing"
proof -
  have "pipelineState processingPng = Processing
      \<and> reset processingPng \<noteq> initial
      \<and> isProcessing (reset processingPng)
      \<and> pipelineState (reset processingPng) \<noteq> Idle"
    by (simp add: pipelineState_def processingPng_def loadedPng_def reset_def initial_def)
  moreover have "pipelineState (ingestFile samplePng initial) = Loaded
      \<and> pipelineState (ingestFile samplePng (reset processingPng)) = Processing"
    by (simp add: pipelineState_def processingPng_def loadedPng_def reset_def initial_def
        ingestFile_def processFile_def startsWith_def samplePng_def onload_def
        readAsDataURL_def)
  ultimately show ?thesis
    by (simp add: run_reset_while_processing)
qed

text \<open>
  Claim C8, amended. From every state \<open>reset\<close> clears the source image, the result image
  and the error and leaves \<open>isProcessing\<close> as it was. From every state in which no model
  call is in progress, \<open>Succeeded\<close> and \<open>Failed\<close> among them, the result is exactly the
  initial state, which is \<open>Idle\<close>.
\<close>

theorem reset_clears:
  "reset s = initial\<lparr>isProcessing := isProcessing s\<rparr>
   \<and> sourceImage (reset s) = None \<and> resultImage (reset s) = None \<and> error (reset s) = None
   \<and> (\<not> isProcessing s \<longrightarrow> reset s = initial \<and> pipelineState (reset s) = Idle)"
  by (simp add: reset_def initial_def pipelineState_def)

text \<open>Claim C8, amended, at the succeeded and the failed sample states.\<close>

theorem reset_clears_witness:
  "pipelineState succeededPng = Succeeded \<and> \<not> isProcessing succeededPng
   \<and> reset succeededPng = initial
   \<and> pipelineState failedPng = Failed \<and> \<not> isProcessing failedPng
   \<and> reset failedPng = initial
   \<and> pipelineState initial = Idle"
  using reset_clears [of succeededPng] reset_clears [of failedPng]
  by (simp add: pipelineState_def succeededPng_def failedPng_def loadedPng_def
      noImageMessage_def initial_def)

subsection \<open>A reply that arrives late\<close>

text \<open>
  Claim C1 as stated fails. Requests carry no generation marker and the code after the
  \<open>await\<close> never looks at the state. After a reset during the call the reply still
  stores its image as the result; after a reset and the ingestion of another file the
  reply to the request for the first file becomes the result shown for the second.
\<close>

theorem late_reply_counterexample:
  "pipelineState (app (run [PickFile samplePng, ReadDone 0, Render, ClickRemove])) = Processing
   \<and> app (run [PickFile samplePng, ReadDone 0, Render, ClickRemove, Render, ClickReset])
       = \<lparr>sourceImage = None, resultImage = None, isProcessing = True, error = None\<rparr>
   \<and> app (run [PickFile samplePng, ReadDone 0, Render, ClickRemove, Render, ClickReset,
                Settle 0 (Replied (replyWith [imagePart ''QUJD'']))])
       = \<lparr>sourceImage = None, resultImage = Some ''data:image/png;base64,QUJD'',
          isProcessing = False, error = None\<rparr>
   \<and> app (run [PickFile samplePng, ReadDone 0, Render, ClickRemove, Render, ClickReset,
                Render, PickFile sampleJpeg, ReadDone 0,
                Settle 0 (Replied (replyWith [imagePart ''QUJD'']))])
       = \<lparr>sourceImage = Some ''data:image/jpeg;base64,/9j/'',
          resultImage = Some ''data:image/png;base64,QUJD'',
          isProcessing = False, error = None\<rparr>
   \<and> app (run [PickFile samplePng, ReadDone 0, Render, ClickRemove, Render, ClickReset,
                Settle 0 (Replied (replyWith [textPart ''no'']))])
       = \<lparr>sourceImage = None, resultImage = None, isProcessing = False,
          error = Some noImageMessage\<rparr>"
proof -
  let ?evs = "[PickFile samplePng, ReadDone 0, Render, ClickRemove, Render, ClickReset]"
  let ?\<sigma> = "\<lparr>app = \<lparr>sourceImage = None, resultImage = None, isProcessing = True,
                     error = None\<rparr>,
             view = processingPng, reading = [],
             inflight = [buildRequest ''data:image/png;base64,iVBORw=='']\<rparr>"
  have r: "run ?evs = ?\<sigma>"
    by (simp add: run_reset_while_processing reset_def processingPng_def loadedPng_def)
  have a: "run (?evs @ rest) = foldl step ?\<sigma> rest" for rest
    unfolding run_append r by (rule refl)
  have "pipelineState (app (run [PickFile samplePng, ReadDone 0, Render, ClickRemove]))
          = Processing"
    by (simp add: run_processing pipelineState_def processingPng_def)
  moreover have "app (run (?evs @ [Settle 0 (Replied (replyWith [imagePart ''QUJD'']))]))
       = \<lparr>sourceImage = None, resultImage = Some ''data:image/png;base64,QUJD'',
          isProcessing = False, error = None\<rparr>"
    unfolding a
    by (simp add: settle_def removeBackground_resume_def responseParts_def replyWith_def
        imagePart_def)
  moreover have "app (run (?evs @ [Render, PickFile sampleJpeg, ReadDone 0,
                  Settle 0 (Replied (replyWith [imagePart ''QUJD'']))]))
       = \<lparr>sourceImage = Some ''data:image/jpeg;base64,/9j/'',
          resultImage = Some ''data:image/png;base64,QUJD'',
          isProcessing = False, error = None\<rparr>"
    unfolding a
    by (simp add: settle_def removeBackground_resume_def responseParts_def replyWith_def
        imagePart_def uploadAreaShown_def processFile_def startsWith_def
        sampleJpeg_def onload_def readAsDataURL_def sextet_def alphabet_def)
  moreover have "app (run (?evs @ [Settle 0 (Replied (replyWith [textPart ''no'']))]))
       = \<lparr>sourceImage = None, resultImage = None, isProcessing = False,
          error = Some noImageMessage\<rparr>"
    unfolding a
    by (simp add: settle_def removeBackground_resume_def responseParts_def replyWith_def
        textPart_def catchClause_def noImageMessage_def)
  ultimately show ?thesis
    using r by simp
qed

text \<open>
  Claim C1, amended. When \<open>reset\<close> or a new ingestion happens during a model call, the
  processing flag stays up, and the reply that arrives afterwards is applied to the state
  then current like any other reply: its first inline part becomes the result image, a
  reply without one or a failed call sets the error, and the flag is cleared. The late
  reply never changes the source image.
\<close>

theorem late_reply_is_applied:
  assumes "truthy (sourceImage s)"
    and "now = reset (fst (removeBackground_begin s))
         \<or> now = ingestFile f (fst (removeBackground_begin s))"
  shows "isProcessing now
       \<and> sourceImage (removeBackground_resume oc now) = sourceImage now
       \<and> \<not> isProcessing (removeBackground_resume oc now)
       \<and> (case oc of
            Replied r \<Rightarrow>
              (case scanParts (responseParts r) of
                 Some url \<Rightarrow>
                   removeBackground_resume oc now
                     = now\<lparr>resultImage := Some url, isProcessing := False\<rparr>
               | None \<Rightarrow>
                   removeBackground_resume oc now
                     = now\<lparr>error := Some noImageMessage, isProcessing := False\<rparr>)
          | Threw err \<Rightarrow>
              removeBackground_resume oc now = (catchClause err now)\<lparr>isProcessing := False\<rparr>)"
proof -
  have "isProcessing now"
    using assms begin_isProcessing [of s]
    by (auto simp add: reset_isProcessing ingestFile_isProcessing)
  moreover have "sourceImage (removeBackground_resume oc now) = sourceImage now"
    by (cases oc)
       (simp_all add: removeBackground_resume_def catchClause_def split: option.splits)
  moreover have "\<not> isProcessing (removeBackground_resume oc now)"
    by (simp add: removeBackground_resume_def)
  moreover have "case oc of
            Replied r \<Rightarrow>
              (case scanParts (responseParts r) of
                 Some url \<Rightarrow>
                   removeBackground_resume oc now
                     = now\<lparr>resultImage := Some url, isProcessing := False\<rparr>
               | None \<Rightarrow>
                   removeBackground_resume oc now
                     = now\<lparr>error := Some noImageMessage, isProcessing := False\<rparr>)
          | Threw err \<Rightarrow>
              removeBackground_resume oc now = (catchClause err now)\<lparr>isProcessing := False\<rparr>"
    by (cases oc)
       (simp_all add: removeBackground_resume_def catchClause_def noImageMessage_def
          split: option.splits)
  ultimately show ?thesis
    by simp
qed

text \<open>Claim C1, amended, at a reset during the call for the sample PNG.\<close>

theorem late_reply_is_applied_witness:
  "truthy (sourceImage loadedPng)
   \<and> reset (fst (removeBackground_begin loadedPng))
       = \<lparr>sourceImage = None, resultImage = None, isProcessing = True, error = None\<rparr>
   \<and> removeBackground_resume (Replied (replyWith [imagePart ''QUJD'']))
        (reset (fst (removeBackground_begin loadedPng)))
       = \<lparr>sourceImage = None, resultImage = Some ''data:image/png;base64,QUJD'',
          isProcessing = False, error = None\<rparr>"
proof -
  have src: "truthy (sourceImage loadedPng)"
    by (simp add: loadedPng_def)
  have now: "reset (fst (removeBackground_begin loadedPng))
       = \<lparr>sourceImage = None, resultImage = None, isProcessing = True, error = None\<rparr>"
    by (simp add: removeBackground_begin_def loadedPng_def reset_def)
  have parts: "scanParts (responseParts (replyWith [imagePart ''QUJD'']))
       = Some ''data:image/png;base64,QUJD''"
    by (simp add: responseParts_def replyWith_def imagePart_def)
  from late_reply_is_applied
    [OF src, of "reset (fst (removeBackground_begin loadedPng))" samplePng
       "Replied (replyWith [imagePart ''QUJD''])"]
  have "removeBackground_resume (Replied (replyWith [imagePart ''QUJD'']))
          (reset (fst (removeBackground_begin loadedPng)))
        = (reset (fst (removeBackground_begin loadedPng)))
            \<lparr>resultImage := Some ''data:image/png;base64,QUJD'', isProcessing := False\<rparr>"
    by (simp add: parts)
  then show ?thesis
    using src now by simp
qed

end
